theory Spec2Isabelle
  imports Main "HOL-Library.Word"
begin

unbundle bit_operations_syntax

section \<open>Data model of ppc-simd.h\<close>

text \<open>
  A vector register value (\<^verbatim>\<open>uint8x16_p\<close>, \<^verbatim>\<open>uint16x8_p\<close>, \<^verbatim>\<open>uint32x4_p\<close>,
  \<^verbatim>\<open>uint64x2_p\<close>) is modelled by its sixteen bytes in \<^emph>\<open>element order\<close>: position
  \<open>i\<close> of the list is element \<open>i\<close> of the value seen as \<^verbatim>\<open>uint8x16_p\<close>, the order of a
  vector initialiser \<^verbatim>\<open>{e0, ..., e15}\<close> and of the bytes in memory. The casts between the
  vector types reinterpret the register and are the identity on this representation.
\<close>

type_synonym byte = "8 word"
type_synonym uint8x16_p = "byte list"
type_synonym address = nat
type_synonym memory = "address \<Rightarrow> byte"

text \<open>
  The preprocessor state the header is compiled under. \<open>BigEndian\<close> stands for
  \<^verbatim>\<open>CRYPTOPP_BIG_ENDIAN\<close> defined (to 1) on a big-endian host, \<open>LittleEndian\<close> for
  \<^verbatim>\<open>CRYPTOPP_LITTLE_ENDIAN\<close> defined on a little-endian host (config.h defines exactly one
  of the two). \<open>XLC\<close> stands for \<^verbatim>\<open>CRYPTOPP_XLC_VERSION\<close> defined, \<open>GCC\<close> for
  \<^verbatim>\<open>CRYPTOPP_GCC_VERSION\<close> defined, \<open>OtherCompiler\<close> for neither.
\<close>

datatype byte_order = BigEndian | LittleEndian

datatype toolchain = XLC | GCC | OtherCompiler

text \<open>
  How a call can end without a value: the body runs to its closing brace and no
  \<^verbatim>\<open>return\<close> statement was executed, or an assertion fired.
\<close>

datatype fault = NoReturnValue | AssertionFailed

section \<open>The vector built-ins of altivec.h\<close>

text \<open>
  Modelled from the spec: the compiler built-ins of \<^verbatim>\<open>altivec.h\<close> are not under src/; the
  spec takes them as a fixed oracle. Each definition below follows the instruction the
  built-in stands for (AltiVec Programming Environments Manual, the reference the header
  cites), stated on element order.

  Register byte \<open>k\<close> (counted from the most significant byte) is element \<open>k\<close> on a
  big-endian host and element \<open>15 - k\<close> on a little-endian host.
\<close>

definition to_register :: "byte_order \<Rightarrow> uint8x16_p \<Rightarrow> byte list" where
  "to_register e v = (case e of BigEndian \<Rightarrow> v | LittleEndian \<Rightarrow> rev v)"

definition from_register :: "byte_order \<Rightarrow> byte list \<Rightarrow> uint8x16_p" where
  "from_register e r = (case e of BigEndian \<Rightarrow> r | LittleEndian \<Rightarrow> rev r)"

text \<open>
  Modelled from the spec: \<^verbatim>\<open>vec_perm\<close>. Output byte \<open>i\<close> is the byte of the concatenation
  of the two sources that the low five bits of mask byte \<open>i\<close> select; both compilers number
  the elements in element order on either host.
\<close>

definition vec_perm :: "uint8x16_p \<Rightarrow> uint8x16_p \<Rightarrow> uint8x16_p \<Rightarrow> uint8x16_p" where
  "vec_perm a b vmask = map (\<lambda>k. (a @ b) ! unat (k AND 31)) vmask"

text \<open>Modelled from the spec: \<^verbatim>\<open>vec_and\<close> and \<^verbatim>\<open>vec_xor\<close>, bitwise on the whole register.\<close>

definition vec_and :: "uint8x16_p \<Rightarrow> uint8x16_p \<Rightarrow> uint8x16_p" where
  "vec_and a b = map2 (\<lambda>x y. x AND y) a b"

definition vec_xor :: "uint8x16_p \<Rightarrow> uint8x16_p \<Rightarrow> uint8x16_p" where
  "vec_xor a b = map2 (\<lambda>x y. x XOR y) a b"

text \<open>
  Modelled from the spec: \<^verbatim>\<open>vec_sld\<close> (instruction \<^verbatim>\<open>vsldoi\<close>). The instruction
  concatenates the two registers, shifts left by \<open>n\<close> bytes (\<open>0 \<le> n \<le> 15\<close>) and keeps
  the sixteen most significant bytes. It works on register bytes on either host, which is
  why the header treats it apart on little-endian hosts.
\<close>

definition vsldoi :: "byte list \<Rightarrow> byte list \<Rightarrow> nat \<Rightarrow> byte list" where
  "vsldoi ra rb n = take 16 (drop n (ra @ rb))"

definition vec_sld :: "byte_order \<Rightarrow> uint8x16_p \<Rightarrow> uint8x16_p \<Rightarrow> nat \<Rightarrow> uint8x16_p" where
  "vec_sld e a b n = from_register e (vsldoi (to_register e a) (to_register e b) n)"

section \<open>Byte-order normaliser and core vector operations\<close>

definition Reverse :: "uint8x16_p \<Rightarrow> uint8x16_p" where
  "Reverse src =
     (let vmask = [15,14,13,12, 11,10,9,8, 7,6,5,4, 3,2,1,0]
      in vec_perm src src vmask)"

definition VectorPermute2 :: "uint8x16_p \<Rightarrow> uint8x16_p \<Rightarrow> uint8x16_p \<Rightarrow> uint8x16_p" where
  "VectorPermute2 vec1 vec2 vmask = vec_perm vec1 vec2 vmask"

definition VectorPermute :: "uint8x16_p \<Rightarrow> uint8x16_p \<Rightarrow> uint8x16_p" where
  "VectorPermute vec vmask = vec_perm vec vec vmask"

definition VectorAnd :: "uint8x16_p \<Rightarrow> uint8x16_p \<Rightarrow> uint8x16_p" where
  "VectorAnd vec1 vec2 = vec_and vec1 vec2"

definition VectorXor :: "uint8x16_p \<Rightarrow> uint8x16_p \<Rightarrow> uint8x16_p" where
  "VectorXor vec1 vec2 = vec_xor vec1 vec2"

text \<open>
  The shift count \<^verbatim>\<open>C\<close> is an \<^verbatim>\<open>unsigned int\<close> template argument, so \<^verbatim>\<open>16-C\<close> is
  computed modulo \<open>2^32\<close> before the mask \<^verbatim>\<open>&0xf\<close>. \<open>VectorShiftLeft2\<close> and
  \<open>VectorShiftRight2\<close> are the two-vector overloads, \<open>VectorShiftLeft\<close> and
  \<open>VectorShiftRight\<close> the one-vector overloads.
\<close>

definition VectorShiftLeft2 :: "byte_order \<Rightarrow> 32 word \<Rightarrow> uint8x16_p \<Rightarrow> uint8x16_p \<Rightarrow> uint8x16_p" where
  "VectorShiftLeft2 e C vec1 vec2 =
     (case e of
        BigEndian \<Rightarrow> (let R = C AND 0xf in vec_sld e vec1 vec2 (unat R))
      | LittleEndian \<Rightarrow> (let R = (16 - C) AND 0xf in vec_sld e vec2 vec1 (unat R)))"

definition VectorShiftLeft :: "byte_order \<Rightarrow> 32 word \<Rightarrow> uint8x16_p \<Rightarrow> uint8x16_p" where
  "VectorShiftLeft e C vec =
     (case e of
        BigEndian \<Rightarrow>
          (let R = C AND 0xf; zero = VectorXor vec vec in vec_sld e vec zero (unat R))
      | LittleEndian \<Rightarrow>
          (let R = (16 - C) AND 0xf; zero = VectorXor vec vec in vec_sld e zero vec (unat R)))"

definition VectorShiftRight :: "byte_order \<Rightarrow> 32 word \<Rightarrow> uint8x16_p \<Rightarrow> uint8x16_p" where
  "VectorShiftRight e C vec =
     (case e of
        BigEndian \<Rightarrow>
          (let R = C AND 0xf; zero = VectorXor vec vec in vec_sld e vec zero (unat R))
      | LittleEndian \<Rightarrow>
          (let R = (16 - C) AND 0xf; zero = VectorXor vec vec in vec_sld e zero vec (unat R)))"

definition VectorShiftRight2 :: "byte_order \<Rightarrow> 32 word \<Rightarrow> uint8x16_p \<Rightarrow> uint8x16_p \<Rightarrow> uint8x16_p" where
  "VectorShiftRight2 e C vec1 vec2 =
     (case e of
        BigEndian \<Rightarrow> (let R = C AND 0xf in vec_sld e vec1 vec2 (unat R))
      | LittleEndian \<Rightarrow> (let R = (16 - C) AND 0xf in vec_sld e vec2 vec1 (unat R)))"

text \<open>
  The two-vector right shift as the header's documentation of \<^verbatim>\<open>VectorShiftRight\<close> words
  it: "On big endian machines VectorShiftRight() is \<^verbatim>\<open>vec_sld(b, a, 16-c)\<close>. On little
  endian machines VectorShiftRight() is translated to \<^verbatim>\<open>vec_sld(a, b, c)\<close>." This is the
  documented operation, kept apart from the code's \<open>VectorShiftRight2\<close>.
\<close>

definition VectorShiftRight2_documented ::
    "byte_order \<Rightarrow> 32 word \<Rightarrow> uint8x16_p \<Rightarrow> uint8x16_p \<Rightarrow> uint8x16_p" where
  "VectorShiftRight2_documented e C a b =
     (case e of
        BigEndian \<Rightarrow> vec_sld e b a (unat ((16 - C) AND 0xf))
      | LittleEndian \<Rightarrow> vec_sld e a b (unat (C AND 0xf)))"

section \<open>Memory and the load/store built-ins\<close>

text \<open>
  Memory is a map from addresses to bytes; an address is a natural number, so the sixteen
  addresses of a buffer never wrap around. A built-in's byte offset is a C \<^verbatim>\<open>int\<close>.
\<close>

definition effective_address :: "int \<Rightarrow> address \<Rightarrow> address" where
  "effective_address off p = nat (int p + off)"

definition align_down :: "nat \<Rightarrow> address \<Rightarrow> address" where
  "align_down n a = a - a mod n"

definition load16 :: "memory \<Rightarrow> address \<Rightarrow> byte list" where
  "load16 m a = map (\<lambda>i. m (a + i)) [0..<16]"

definition store_window :: "address \<Rightarrow> nat \<Rightarrow> (nat \<Rightarrow> byte) \<Rightarrow> memory \<Rightarrow> memory" where
  "store_window a n f m = (\<lambda>x. if a \<le> x \<and> x < a + n then f (x - a) else m x)"

text \<open>
  Modelled from the spec: \<^verbatim>\<open>IsAlignedOn\<close> of misc.h is not under src/; the spec has the
  baseline tier "detect 16-byte alignment".
\<close>

definition IsAlignedOn :: "address \<Rightarrow> nat \<Rightarrow> bool" where
  "IsAlignedOn p alignment = (p mod alignment = 0)"

text \<open>
  Modelled from the spec: \<^verbatim>\<open>vec_ld\<close> and \<^verbatim>\<open>vec_st\<close> (instructions \<^verbatim>\<open>lvx\<close>, \<^verbatim>\<open>stvx\<close>)
  ignore the low four bits of the effective address and move the aligned sixteen bytes;
  element \<open>i\<close> lies at the aligned address plus \<open>i\<close>.
\<close>

definition vec_ld :: "memory \<Rightarrow> int \<Rightarrow> address \<Rightarrow> uint8x16_p" where
  "vec_ld m off p = load16 m (align_down 16 (effective_address off p))"

definition vec_st :: "uint8x16_p \<Rightarrow> int \<Rightarrow> address \<Rightarrow> memory \<Rightarrow> memory" where
  "vec_st v off p m = store_window (align_down 16 (effective_address off p)) 16 (\<lambda>k. v ! k) m"

text \<open>
  Modelled from the spec: \<^verbatim>\<open>vec_ste\<close> (instructions \<^verbatim>\<open>stvebx\<close>, \<^verbatim>\<open>stvehx\<close>,
  \<^verbatim>\<open>stvewx\<close>). The pointer's element type gives the size \<open>sz\<close> (1, 2 or 4 bytes); the
  effective address is rounded down to a multiple of \<open>sz\<close>, and the one element of the
  vector that \<^verbatim>\<open>vec_st\<close> would put at that address is stored there.
\<close>

definition vec_ste :: "nat \<Rightarrow> uint8x16_p \<Rightarrow> int \<Rightarrow> address \<Rightarrow> memory \<Rightarrow> memory" where
  "vec_ste sz v off p m =
     (let EA = align_down sz (effective_address off p)
      in store_window EA sz (\<lambda>k. v ! (EA mod 16 + k)) m)"

text \<open>
  Modelled from the spec: \<^verbatim>\<open>vec_lvsl\<close> and \<^verbatim>\<open>vec_lvsr\<close>, the "alignment-derived
  permutation vector". With \<open>sh\<close> the low four bits of the effective address,
  \<^verbatim>\<open>vec_lvsl\<close> is \<open>{sh, sh+1, ..., sh+15}\<close> and \<^verbatim>\<open>vec_lvsr\<close> is
  \<open>{16-sh, 17-sh, ..., 31-sh}\<close>.
\<close>

definition vec_lvsl :: "int \<Rightarrow> address \<Rightarrow> uint8x16_p" where
  "vec_lvsl off p =
     (let sh = effective_address off p mod 16 in map (\<lambda>i. of_nat (sh + i)) [0..<16])"

definition vec_lvsr :: "int \<Rightarrow> address \<Rightarrow> uint8x16_p" where
  "vec_lvsr off p =
     (let sh = effective_address off p mod 16 in map (\<lambda>i. of_nat (16 - sh + i)) [0..<16])"

text \<open>
  Modelled from the spec: the extended (POWER7) loads and stores \<^verbatim>\<open>vec_vsx_ld\<close>,
  \<^verbatim>\<open>vec_xl\<close>, \<^verbatim>\<open>vec_vsx_st\<close>, \<^verbatim>\<open>vec_xst\<close> "tolerate unaligned addresses" and move
  sixteen bytes in element order. \<^verbatim>\<open>vec_xl_be\<close> and \<^verbatim>\<open>vec_xst_be\<close> move them in
  big-endian order: register byte \<open>k\<close> lies at the address plus \<open>k\<close> on either host.
\<close>

definition vec_vsx_ld :: "memory \<Rightarrow> int \<Rightarrow> address \<Rightarrow> uint8x16_p" where
  "vec_vsx_ld m off p = load16 m (effective_address off p)"

definition vec_xl :: "memory \<Rightarrow> int \<Rightarrow> address \<Rightarrow> uint8x16_p" where
  "vec_xl m off p = load16 m (effective_address off p)"

definition vec_xl_be :: "byte_order \<Rightarrow> memory \<Rightarrow> int \<Rightarrow> address \<Rightarrow> uint8x16_p" where
  "vec_xl_be e m off p = from_register e (load16 m (effective_address off p))"

definition vec_vsx_st :: "uint8x16_p \<Rightarrow> int \<Rightarrow> address \<Rightarrow> memory \<Rightarrow> memory" where
  "vec_vsx_st v off p m = store_window (effective_address off p) 16 (\<lambda>k. v ! k) m"

definition vec_xst :: "uint8x16_p \<Rightarrow> int \<Rightarrow> address \<Rightarrow> memory \<Rightarrow> memory" where
  "vec_xst v off p m = store_window (effective_address off p) 16 (\<lambda>k. v ! k) m"

definition vec_xst_be :: "byte_order \<Rightarrow> uint8x16_p \<Rightarrow> int \<Rightarrow> address \<Rightarrow> memory \<Rightarrow> memory" where
  "vec_xst_be e v off p m =
     store_window (effective_address off p) 16 (\<lambda>k. to_register e v ! k) m"

section \<open>Loads and stores with CRYPTOPP_POWER7_AVAILABLE\<close>

text \<open>
  The \<open>_off\<close> definitions are the overloads with an \<^verbatim>\<open>int off\<close> parameter. A store
  takes the memory before the call and returns the memory after it.
\<close>

definition VectorLoadBE_POWER7 :: "toolchain \<Rightarrow> byte_order \<Rightarrow> memory \<Rightarrow> address \<Rightarrow> uint8x16_p" where
  "VectorLoadBE_POWER7 tc e m src =
     (case tc of
        XLC \<Rightarrow> vec_xl_be e m 0 src
      | _ \<Rightarrow> (case e of
                LittleEndian \<Rightarrow> Reverse (vec_vsx_ld m 0 src)
              | BigEndian \<Rightarrow> vec_vsx_ld m 0 src))"

definition VectorLoadBE_POWER7_off ::
    "toolchain \<Rightarrow> byte_order \<Rightarrow> memory \<Rightarrow> int \<Rightarrow> address \<Rightarrow> uint8x16_p" where
  "VectorLoadBE_POWER7_off tc e m off src =
     (case tc of
        XLC \<Rightarrow> vec_xl_be e m off src
      | _ \<Rightarrow> (case e of
                LittleEndian \<Rightarrow> Reverse (vec_vsx_ld m off src)
              | BigEndian \<Rightarrow> vec_vsx_ld m off src))"

definition VectorLoad_POWER7 :: "toolchain \<Rightarrow> memory \<Rightarrow> address \<Rightarrow> uint8x16_p" where
  "VectorLoad_POWER7 tc m src =
     (case tc of XLC \<Rightarrow> vec_xl m 0 src | _ \<Rightarrow> vec_vsx_ld m 0 src)"

definition VectorLoad_POWER7_off :: "toolchain \<Rightarrow> memory \<Rightarrow> int \<Rightarrow> address \<Rightarrow> uint8x16_p" where
  "VectorLoad_POWER7_off tc m off src =
     (case tc of XLC \<Rightarrow> vec_xl m off src | _ \<Rightarrow> vec_vsx_ld m off src)"

definition VectorStoreBE_POWER7 ::
    "toolchain \<Rightarrow> byte_order \<Rightarrow> uint8x16_p \<Rightarrow> memory \<Rightarrow> address \<Rightarrow> memory" where
  "VectorStoreBE_POWER7 tc e src m dest =
     (case tc of
        XLC \<Rightarrow> vec_xst_be e src 0 dest m
      | _ \<Rightarrow> (case e of
                LittleEndian \<Rightarrow> vec_vsx_st (Reverse src) 0 dest m
              | BigEndian \<Rightarrow> vec_vsx_st src 0 dest m))"

definition VectorStoreBE_POWER7_off ::
    "toolchain \<Rightarrow> byte_order \<Rightarrow> uint8x16_p \<Rightarrow> memory \<Rightarrow> int \<Rightarrow> address \<Rightarrow> memory" where
  "VectorStoreBE_POWER7_off tc e src m off dest =
     (case tc of
        XLC \<Rightarrow> vec_xst_be e src off dest m
      | _ \<Rightarrow> (case e of
                LittleEndian \<Rightarrow> vec_vsx_st (Reverse src) off dest m
              | BigEndian \<Rightarrow> vec_vsx_st src off dest m))"

definition VectorStore_POWER7 :: "toolchain \<Rightarrow> uint8x16_p \<Rightarrow> memory \<Rightarrow> address \<Rightarrow> memory" where
  "VectorStore_POWER7 tc src m dest =
     (case tc of XLC \<Rightarrow> vec_xst src 0 dest m | _ \<Rightarrow> vec_vsx_st src 0 dest m)"

definition VectorStore_POWER7_off ::
    "toolchain \<Rightarrow> uint8x16_p \<Rightarrow> memory \<Rightarrow> int \<Rightarrow> address \<Rightarrow> memory" where
  "VectorStore_POWER7_off tc src m off dest =
     (case tc of XLC \<Rightarrow> vec_xst src off dest m | _ \<Rightarrow> vec_vsx_st src off dest m)"

section \<open>Loads and stores without CRYPTOPP_POWER7_AVAILABLE\<close>

text \<open>
  \<open>VectorLoad_ALTIVEC_data\<close> is the value of the local variable \<^verbatim>\<open>data\<close> when the body
  of the baseline \<^verbatim>\<open>VectorLoad\<close> reaches its closing brace. The body has no \<^verbatim>\<open>return\<close>
  statement, so the call itself yields no value.
\<close>

definition VectorLoad_ALTIVEC_data :: "memory \<Rightarrow> address \<Rightarrow> uint8x16_p" where
  "VectorLoad_ALTIVEC_data m src =
     (if IsAlignedOn src 16 then vec_ld m 0 src
      else (let perm = vec_lvsl 0 src;
                low = vec_ld m 0 src;
                high = vec_ld m 15 src
            in vec_perm low high perm))"

definition VectorLoad_ALTIVEC :: "memory \<Rightarrow> address \<Rightarrow> fault + uint8x16_p" where
  "VectorLoad_ALTIVEC m src = (let data = VectorLoad_ALTIVEC_data m src in Inl NoReturnValue)"

definition VectorLoadBE_ALTIVEC :: "byte_order \<Rightarrow> memory \<Rightarrow> address \<Rightarrow> fault + uint8x16_p" where
  "VectorLoadBE_ALTIVEC e m src =
     (case e of
        BigEndian \<Rightarrow> VectorLoad_ALTIVEC m src
      | LittleEndian \<Rightarrow>
          (case VectorLoad_ALTIVEC m src of
             Inl f \<Rightarrow> Inl f
           | Inr data \<Rightarrow>
               (let vmask = [15,14,13,12, 11,10,9,8, 7,6,5,4, 3,2,1,0]
                in Inr (vec_perm data data vmask))))"

definition VectorStore_ALTIVEC :: "byte_order \<Rightarrow> uint8x16_p \<Rightarrow> memory \<Rightarrow> address \<Rightarrow> memory" where
  "VectorStore_ALTIVEC e data m dest =
     (let t1 = (case e of
                  LittleEndian \<Rightarrow>
                    (let vmask = [15,14,13,12, 11,10,9,8, 7,6,5,4, 3,2,1,0]
                     in vec_perm data data vmask)
                | BigEndian \<Rightarrow> data)
      in if IsAlignedOn dest 16 then vec_st t1 0 dest m
         else (let t2 = vec_perm t1 t1 (vec_lvsr 0 dest);
                   m1 = vec_ste 1 t2 0 dest m;
                   m2 = vec_ste 2 t2 1 dest m1;
                   m3 = vec_ste 4 t2 3 dest m2;
                   m4 = vec_ste 4 t2 4 dest m3;
                   m5 = vec_ste 4 t2 8 dest m4;
                   m6 = vec_ste 4 t2 12 dest m5;
                   m7 = vec_ste 2 t2 14 dest m6
               in vec_ste 1 t2 15 dest m7))"

definition VectorStoreBE_ALTIVEC :: "byte_order \<Rightarrow> uint8x16_p \<Rightarrow> memory \<Rightarrow> address \<Rightarrow> memory" where
  "VectorStoreBE_ALTIVEC e src m dest =
     (case e of
        BigEndian \<Rightarrow> VectorStore_ALTIVEC e src m dest
      | LittleEndian \<Rightarrow>
          (let vmask = [15,14,13,12, 11,10,9,8, 7,6,5,4, 3,2,1,0]
           in VectorStore_ALTIVEC e (vec_perm src src vmask) m dest))"

section \<open>Crypto acceleration operations\<close>

text \<open>
  Modelled from the spec: \<^verbatim>\<open>CRYPTOPP_ASSERT\<close> of trap.h is not under src/. The spec calls
  \<^verbatim>\<open>CRYPTOPP_ASSERT(0)\<close> "a hard, always-fires consistency assertion" that "terminates
  execution rather than returning a sentinel". The second argument is the rest of the body,
  run when the asserted expression holds.
\<close>

definition CRYPTOPP_ASSERT :: "bool \<Rightarrow> fault + 'a \<Rightarrow> fault + 'a" where
  "CRYPTOPP_ASSERT exp rest = (if exp then rest else Inl AssertionFailed)"

text \<open>
  The instruction built-ins (\<^verbatim>\<open>__vcipher\<close> and \<^verbatim>\<open>__builtin_crypto_vcipher\<close>, and so on)
  are parameters: the first is the XL C/C++ built-in, the second the GCC built-in. In the
  branch for neither compiler the body is the assertion followed by the closing brace.
\<close>

type_synonym cipher_builtin = "uint8x16_p \<Rightarrow> uint8x16_p \<Rightarrow> uint8x16_p"
type_synonym sigma_builtin = "uint8x16_p \<Rightarrow> int \<Rightarrow> int \<Rightarrow> uint8x16_p"

definition VectorEncrypt ::
    "toolchain \<Rightarrow> cipher_builtin \<Rightarrow> cipher_builtin \<Rightarrow> uint8x16_p \<Rightarrow> uint8x16_p \<Rightarrow> fault + uint8x16_p" where
  "VectorEncrypt tc vcipher builtin_crypto_vcipher state key =
     (case tc of
        XLC \<Rightarrow> Inr (vcipher state key)
      | GCC \<Rightarrow> Inr (builtin_crypto_vcipher state key)
      | OtherCompiler \<Rightarrow> CRYPTOPP_ASSERT False (Inl NoReturnValue))"

definition VectorEncryptLast ::
    "toolchain \<Rightarrow> cipher_builtin \<Rightarrow> cipher_builtin \<Rightarrow> uint8x16_p \<Rightarrow> uint8x16_p \<Rightarrow> fault + uint8x16_p" where
  "VectorEncryptLast tc vcipherlast builtin_crypto_vcipherlast state key =
     (case tc of
        XLC \<Rightarrow> Inr (vcipherlast state key)
      | GCC \<Rightarrow> Inr (builtin_crypto_vcipherlast state key)
      | OtherCompiler \<Rightarrow> CRYPTOPP_ASSERT False (Inl NoReturnValue))"

definition VectorDecrypt ::
    "toolchain \<Rightarrow> cipher_builtin \<Rightarrow> cipher_builtin \<Rightarrow> uint8x16_p \<Rightarrow> uint8x16_p \<Rightarrow> fault + uint8x16_p" where
  "VectorDecrypt tc vncipher builtin_crypto_vncipher state key =
     (case tc of
        XLC \<Rightarrow> Inr (vncipher state key)
      | GCC \<Rightarrow> Inr (builtin_crypto_vncipher state key)
      | OtherCompiler \<Rightarrow> CRYPTOPP_ASSERT False (Inl NoReturnValue))"

definition VectorDecryptLast ::
    "toolchain \<Rightarrow> cipher_builtin \<Rightarrow> cipher_builtin \<Rightarrow> uint8x16_p \<Rightarrow> uint8x16_p \<Rightarrow> fault + uint8x16_p" where
  "VectorDecryptLast tc vncipherlast builtin_crypto_vncipherlast state key =
     (case tc of
        XLC \<Rightarrow> Inr (vncipherlast state key)
      | GCC \<Rightarrow> Inr (builtin_crypto_vncipherlast state key)
      | OtherCompiler \<Rightarrow> CRYPTOPP_ASSERT False (Inl NoReturnValue))"

definition VectorSHA256 ::
    "toolchain \<Rightarrow> sigma_builtin \<Rightarrow> sigma_builtin \<Rightarrow> int \<Rightarrow> int \<Rightarrow> uint8x16_p \<Rightarrow> fault + uint8x16_p" where
  "VectorSHA256 tc vshasigmaw builtin_crypto_vshasigmaw func subfunc vec =
     (case tc of
        XLC \<Rightarrow> Inr (vshasigmaw vec func subfunc)
      | GCC \<Rightarrow> Inr (builtin_crypto_vshasigmaw vec func subfunc)
      | OtherCompiler \<Rightarrow> CRYPTOPP_ASSERT False (Inl NoReturnValue))"

definition VectorSHA512 ::
    "toolchain \<Rightarrow> sigma_builtin \<Rightarrow> sigma_builtin \<Rightarrow> int \<Rightarrow> int \<Rightarrow> uint8x16_p \<Rightarrow> fault + uint8x16_p" where
  "VectorSHA512 tc vshasigmad builtin_crypto_vshasigmad func subfunc vec =
     (case tc of
        XLC \<Rightarrow> Inr (vshasigmad vec func subfunc)
      | GCC \<Rightarrow> Inr (builtin_crypto_vshasigmad vec func subfunc)
      | OtherCompiler \<Rightarrow> CRYPTOPP_ASSERT False (Inl NoReturnValue))"

section \<open>Auxiliary facts about the built-ins\<close>

lemma list16_exhaust:
  "length (v::'a list) = 16 \<Longrightarrow>
   \<exists>a0 a1 a2 a3 a4 a5 a6 a7 a8 a9 a10 a11 a12 a13 a14 a15.
     v = [a0,a1,a2,a3,a4,a5,a6,a7,a8,a9,a10,a11,a12,a13,a14,a15]"
  by (auto simp: numeral_eq_Suc length_Suc_conv)

lemma Reverse_rev:
  assumes "length v = 16"
  shows "Reverse v = rev v"
proof -
  obtain a0 a1 a2 a3 a4 a5 a6 a7 a8 a9 a10 a11 a12 a13 a14 a15
    where "v = [a0,a1,a2,a3,a4,a5,a6,a7,a8,a9,a10,a11,a12,a13,a14,a15]"
    using list16_exhaust [OF assms] by blast
  then show ?thesis by (simp add: Reverse_def vec_perm_def)
qed

lemma length_Reverse: "length (Reverse v) = 16"
  by (simp add: Reverse_def vec_perm_def)

lemma vec_sld_BigEndian: "vec_sld BigEndian a b n = take 16 (drop n (a @ b))"
  by (simp add: vec_sld_def vsldoi_def to_register_def from_register_def)

lemma vec_sld_LittleEndian:
  assumes "length a = 16" "length b = 16" "n \<le> 16"
  shows "vec_sld LittleEndian a b n = take 16 (drop (16 - n) (b @ a))"
  using assms
  by (simp add: vec_sld_def vsldoi_def to_register_def from_register_def rev_take rev_drop
      flip: rev_append)

lemma vec_sld_count_0: "length a = 16 \<Longrightarrow> vec_sld e a b 0 = a"
  by (cases e) (simp_all add: vec_sld_def vsldoi_def to_register_def from_register_def)

lemma unat_and_0xf:
  fixes w :: "32 word"
  shows "unat (w AND 0xf) = unat w mod 16"
proof -
  have "(0xf :: 32 word) = mask 4" by (simp add: mask_eq_decr_exp)
  then have "w AND 0xf = take_bit 4 w" by (simp add: take_bit_eq_mask)
  then show ?thesis by (simp add: take_bit_eq_mod unat_mod)
qed

lemma unat_complement_0xf:
  fixes C :: "32 word"
  assumes "1 \<le> unat C" "unat C \<le> 15"
  shows "unat ((16 - C) AND 0xf) = 16 - unat C"
proof -
  have "C \<le> 16" using assms by (simp add: word_le_nat_alt)
  then have "unat (16 - C) = 16 - unat C" by (simp add: unat_sub)
  then show ?thesis using assms by (simp add: unat_and_0xf)
qed

section \<open>The shifts as windows of a concatenation\<close>

text \<open>
  For a count from 1 to 15 the two-vector left shift is, on either host, the sixteen bytes
  of \<open>vec1 @ vec2\<close> that start at position \<open>C\<close>.
\<close>

lemma VectorShiftLeft2_window:
  assumes "length vec1 = 16" "length vec2 = 16" "1 \<le> unat C" "unat C \<le> 15"
  shows "VectorShiftLeft2 e C vec1 vec2 = take 16 (drop (unat C) (vec1 @ vec2))"
proof (cases e)
  case BigEndian
  then show ?thesis using assms
    by (simp add: VectorShiftLeft2_def vec_sld_BigEndian unat_and_0xf)
next
  case LittleEndian
  then show ?thesis using assms
    by (simp add: VectorShiftLeft2_def vec_sld_LittleEndian unat_complement_0xf)
qed

lemma VectorShiftRight2_documented_window:
  assumes "length a = 16" "length b = 16" "1 \<le> unat C" "unat C \<le> 15"
  shows "VectorShiftRight2_documented e C a b = take 16 (drop (16 - unat C) (b @ a))"
proof (cases e)
  case BigEndian
  then show ?thesis using assms
    by (simp add: VectorShiftRight2_documented_def vec_sld_BigEndian unat_complement_0xf)
next
  case LittleEndian
  then show ?thesis using assms
    by (simp add: VectorShiftRight2_documented_def vec_sld_LittleEndian unat_and_0xf)
qed

text \<open>
  The documented right shift undoes the left shift when the bytes the left shift dropped
  are kept in a second vector: with \<open>s\<close> the shifted vector and \<open>r\<close> the vector whose
  tail holds the dropped bytes, the documented \<^verbatim>\<open>VectorShiftRight<C>(s, r)\<close> is \<open>v\<close>.
\<close>

lemma documented_round_trip:
  assumes "length v = 16" "length u = 16" "length t = 16" "1 \<le> unat C" "unat C \<le> 15"
  shows "VectorShiftRight2_documented e C (VectorShiftLeft2 e C v t) (VectorShiftLeft2 e C u v) = v"
proof -
  let ?c = "unat C"
  have s: "VectorShiftLeft2 e C v t = drop ?c v @ take ?c t"
    using assms by (simp add: VectorShiftLeft2_window)
  have r: "VectorShiftLeft2 e C u v = drop ?c u @ take ?c v"
    using assms by (simp add: VectorShiftLeft2_window)
  have "VectorShiftRight2_documented e C (drop ?c v @ take ?c t) (drop ?c u @ take ?c v)
      = take 16 (drop (16 - ?c) ((drop ?c u @ take ?c v) @ (drop ?c v @ take ?c t)))"
    using assms by (simp add: VectorShiftRight2_documented_window)
  also have "\<dots> = take ?c v @ drop ?c v"
    using assms by simp
  finally show ?thesis by (simp add: s r)
qed

section \<open>Auxiliary facts about memory\<close>

lemma effective_address_simps:
  "effective_address 0 p = p"
  "effective_address (numeral k) p = p + numeral k"
  by (simp_all add: effective_address_def nat_add_distrib)

lemma store_window_outside:
  "x < a \<or> a + n \<le> x \<Longrightarrow> store_window a n f m x = m x"
  by (auto simp: store_window_def)

lemma load16_store_window: "load16 (store_window a 16 f m) a = map f [0..<16]"
  by (simp add: load16_def store_window_def)

lemma map_nth_16: "length v = 16 \<Longrightarrow> map (\<lambda>k. v ! k) [0..<16] = v"
  using map_nth [of v] by simp

lemma length_load16: "length (load16 m a) = 16"
  by (simp add: load16_def)

lemma nth_load16: "i < 16 \<Longrightarrow> load16 m a ! i = m (a + i)"
  by (simp add: load16_def)

lemma unat_byte_and_31:
  assumes "n < 32"
  shows "unat ((of_nat n :: byte) AND 31) = n"
proof -
  have "(31 :: byte) = mask 5" by (simp add: mask_eq_decr_exp)
  then have "(of_nat n :: byte) AND 31 = take_bit 5 (of_nat n)" by (simp add: take_bit_eq_mask)
  then show ?thesis using assms by (simp add: take_bit_eq_mod unat_mod unat_of_nat)
qed

lemma length_vec_perm: "length (vec_perm a b vmask) = length vmask"
  by (simp add: vec_perm_def)

lemma length_vec_lvsl: "length (vec_lvsl off p) = 16"
  by (simp add: vec_lvsl_def Let_def)

lemma nth_vec_lvsl:
  "i < 16 \<Longrightarrow> vec_lvsl off p ! i = of_nat (effective_address off p mod 16 + i)"
  by (simp add: vec_lvsl_def Let_def)

lemma nth_vec_perm:
  "i < length vmask \<Longrightarrow> vec_perm a b vmask ! i = (a @ b) ! unat (vmask ! i AND 31)"
  by (simp add: vec_perm_def)

lemma nth_two_blocks:
  assumes "k < 32"
  shows "(load16 m a @ load16 m (a + 16)) ! k = m (a + k)"
  using assms by (simp add: nth_append length_load16 nth_load16)

lemma high_block:
  fixes src :: nat
  assumes "src mod 16 \<noteq> 0"
  shows "src + 15 - (src + 15) mod 16 = src - src mod 16 + 16"
proof -
  define q where "q = src div 16"
  define r where "r = src mod 16"
  have src: "src = 16 * q + r" by (simp add: q_def r_def)
  have r: "0 < r" "r < 16" using assms by (simp_all add: r_def)
  have "src + 15 = 16 * (q + 1) + (r - 1)" using src r by simp
  then have "(src + 15) mod 16 = (r - 1) mod 16" by (metis mod_mult_self4)
  then have "(src + 15) mod 16 = r - 1" using r by simp
  moreover have "src mod 16 = r" by (simp add: r_def)
  moreover have "r \<le> src" by (simp add: r_def)
  ultimately show ?thesis using r by simp
qed

section \<open>The baseline load and store\<close>

text \<open>
  The permute of the two aligned blocks with the \<^verbatim>\<open>vec_lvsl\<close> vector selects the sixteen
  bytes that start at the unaligned address.
\<close>

lemma unaligned_permute:
  assumes "src mod 16 \<noteq> 0"
  shows "vec_perm (load16 m (src - src mod 16)) (load16 m (src - src mod 16 + 16)) (vec_lvsl 0 src)
       = load16 m src"
proof (rule nth_equalityI)
  show "length (vec_perm (load16 m (src - src mod 16)) (load16 m (src - src mod 16 + 16))
          (vec_lvsl 0 src)) = length (load16 m src)"
    by (simp add: length_vec_perm length_vec_lvsl length_load16)
next
  fix i
  assume "i < length (vec_perm (load16 m (src - src mod 16)) (load16 m (src - src mod 16 + 16))
                (vec_lvsl 0 src))"
  then have i: "i < 16" by (simp add: length_vec_perm length_vec_lvsl)
  have sh: "src mod 16 + i < 32" using i by simp
  have "vec_perm (load16 m (src - src mod 16)) (load16 m (src - src mod 16 + 16)) (vec_lvsl 0 src) ! i
      = (load16 m (src - src mod 16) @ load16 m (src - src mod 16 + 16)) ! (src mod 16 + i)"
    using i sh
    by (simp only: nth_vec_perm length_vec_lvsl nth_vec_lvsl effective_address_simps unat_byte_and_31)
  also have "\<dots> = m (src - src mod 16 + (src mod 16 + i))" using sh by (rule nth_two_blocks)
  also have "\<dots> = m (src + i)" by simp
  finally show "vec_perm (load16 m (src - src mod 16)) (load16 m (src - src mod 16 + 16))
                  (vec_lvsl 0 src) ! i = load16 m src ! i"
    using i by (simp add: nth_load16)
qed

text \<open>
  The value the baseline \<^verbatim>\<open>VectorLoad\<close> leaves in \<^verbatim>\<open>data\<close> is the sixteen bytes at
  \<^verbatim>\<open>src\<close>, whatever the alignment.
\<close>

lemma VectorLoad_ALTIVEC_data_eq: "VectorLoad_ALTIVEC_data m src = load16 m src"
proof (cases "src mod 16 = 0")
  case True
  then show ?thesis
    by (simp add: VectorLoad_ALTIVEC_data_def IsAlignedOn_def vec_ld_def effective_address_simps
        align_down_def)
next
  case False
  have low: "vec_ld m 0 src = load16 m (src - src mod 16)"
    by (simp add: vec_ld_def effective_address_simps align_down_def)
  have high: "vec_ld m 15 src = load16 m (src - src mod 16 + 16)"
    using high_block [OF False]
    by (simp add: vec_ld_def effective_address_simps align_down_def)
  show ?thesis using False unaligned_permute [OF False, of m]
    by (simp add: VectorLoad_ALTIVEC_data_def IsAlignedOn_def Let_def low high)
qed

text \<open>
  A lane-partial store of \<open>sz\<close> bytes at offset \<open>off\<close> stays inside the sixteen bytes at
  \<open>dest\<close> when \<open>sz \<le> off + 1\<close> and \<open>off + sz \<le> 16\<close>; the eight stores of the
  baseline \<^verbatim>\<open>VectorStore\<close> all have such a size and offset.
\<close>

lemma vec_ste_outside:
  assumes "0 < sz" "sz \<le> off + 1" "off + sz \<le> 16" "x < dest \<or> dest + 16 \<le> x"
  shows "vec_ste sz v (int off) dest m x = m x"
proof -
  let ?a = "dest + off"
  have ea: "effective_address (int off) dest = ?a"
    by (simp add: effective_address_def)
  have "?a mod sz < sz" using assms(1) by simp
  then have "dest \<le> align_down sz ?a" "align_down sz ?a + sz \<le> dest + 16"
    using assms unfolding align_down_def by linarith+
  then show ?thesis
    using assms(4) by (auto simp: vec_ste_def Let_def ea intro!: store_window_outside)
qed

lemma vec_st_outside:
  assumes "dest mod 16 = 0" "x < dest \<or> dest + 16 \<le> x"
  shows "vec_st v 0 dest m x = m x"
  using assms by (simp add: vec_st_def effective_address_simps align_down_def store_window_outside)

section \<open>The POWER7 loads and stores\<close>

lemma load16_after_store:
  assumes "length v = 16"
  shows "load16 (store_window a 16 (\<lambda>k. v ! k) m) a = v"
  using assms by (simp add: load16_store_window map_nth_16)

lemma VectorLoad_POWER7_eq: "VectorLoad_POWER7 tc m src = load16 m src"
  by (cases tc) (simp_all add: VectorLoad_POWER7_def vec_xl_def vec_vsx_ld_def effective_address_simps)

lemma VectorLoad_POWER7_off_eq:
  "VectorLoad_POWER7_off tc m off src = load16 m (effective_address off src)"
  by (cases tc) (simp_all add: VectorLoad_POWER7_off_def vec_xl_def vec_vsx_ld_def)

lemma VectorStore_POWER7_eq:
  "VectorStore_POWER7 tc v m dest = store_window dest 16 (\<lambda>k. v ! k) m"
  by (cases tc)
    (simp_all add: VectorStore_POWER7_def vec_xst_def vec_vsx_st_def effective_address_simps)

lemma VectorStore_POWER7_off_eq:
  "VectorStore_POWER7_off tc v m off dest
     = store_window (effective_address off dest) 16 (\<lambda>k. v ! k) m"
  by (cases tc) (simp_all add: VectorStore_POWER7_off_def vec_xst_def vec_vsx_st_def)

text \<open>
  With \<^verbatim>\<open>CRYPTOPP_POWER7_AVAILABLE\<close> a store followed by a load at the same address and
  offset gives the stored vector back, under either compiler and either byte order.
\<close>

lemma POWER7_store_load_round_trip:
  assumes "length v = 16"
  shows "VectorLoad_POWER7 tc (VectorStore_POWER7 tc v m dest) dest = v"
    and "VectorLoad_POWER7_off tc (VectorStore_POWER7_off tc v m off dest) off dest = v"
  using assms
  by (simp_all add: VectorLoad_POWER7_eq VectorStore_POWER7_eq VectorLoad_POWER7_off_eq
      VectorStore_POWER7_off_eq load16_after_store)

lemma VectorLoadBE_POWER7_LittleEndian:
  "VectorLoadBE_POWER7 tc LittleEndian m src = rev (load16 m src)"
  by (cases tc)
    (simp_all add: VectorLoadBE_POWER7_def vec_xl_be_def vec_vsx_ld_def from_register_def
      effective_address_simps Reverse_rev length_load16)

lemma VectorLoadBE_POWER7_off_LittleEndian:
  "VectorLoadBE_POWER7_off tc LittleEndian m off src = rev (load16 m (effective_address off src))"
  by (cases tc)
    (simp_all add: VectorLoadBE_POWER7_off_def vec_xl_be_def vec_vsx_ld_def from_register_def
      Reverse_rev length_load16)

lemma VectorStoreBE_POWER7_LittleEndian:
  assumes "length v = 16"
  shows "VectorStoreBE_POWER7 tc LittleEndian v m dest = store_window dest 16 (\<lambda>k. rev v ! k) m"
  using assms
  by (cases tc)
    (simp_all add: VectorStoreBE_POWER7_def vec_xst_be_def vec_vsx_st_def to_register_def
      effective_address_simps Reverse_rev)

lemma VectorStoreBE_POWER7_off_LittleEndian:
  assumes "length v = 16"
  shows "VectorStoreBE_POWER7_off tc LittleEndian v m off dest
       = store_window (effective_address off dest) 16 (\<lambda>k. rev v ! k) m"
  using assms
  by (cases tc)
    (simp_all add: VectorStoreBE_POWER7_off_def vec_xst_be_def vec_vsx_st_def to_register_def
      Reverse_rev)

text \<open>
  On a little-endian host the POWER7 big-endian functions are the native ones composed
  with \<open>Reverse\<close>, under XL C/C++ (\<^verbatim>\<open>vec_xl_be\<close>, \<^verbatim>\<open>vec_xst_be\<close>) as under the other
  compilers, with and without an offset.
\<close>

lemma POWER7_big_endian_paths:
  assumes "length v = 16"
  shows "VectorLoadBE_POWER7 tc LittleEndian m b = Reverse (VectorLoad_POWER7 tc m b)
       \<and> VectorLoad_POWER7 tc (VectorStoreBE_POWER7 tc LittleEndian v m b) b = Reverse v
       \<and> VectorLoadBE_POWER7_off tc LittleEndian m off b = Reverse (VectorLoad_POWER7_off tc m off b)
       \<and> VectorLoad_POWER7_off tc (VectorStoreBE_POWER7_off tc LittleEndian v m off b) off b
           = Reverse v
       \<and> VectorStoreBE_POWER7 tc LittleEndian v m b = VectorStore_POWER7 tc (Reverse v) m b"
proof -
  have rv: "Reverse v = rev v" using assms by (rule Reverse_rev)
  have lrv: "length (rev v) = 16" using assms by simp
  have "VectorLoadBE_POWER7 tc LittleEndian m b = Reverse (VectorLoad_POWER7 tc m b)"
    by (simp add: VectorLoadBE_POWER7_LittleEndian VectorLoad_POWER7_eq Reverse_rev length_load16)
  moreover
  have "VectorLoad_POWER7 tc (VectorStoreBE_POWER7 tc LittleEndian v m b) b = Reverse v"
    using assms load16_after_store [OF lrv]
    by (simp add: VectorLoad_POWER7_eq VectorStoreBE_POWER7_LittleEndian rv)
  moreover
  have "VectorLoadBE_POWER7_off tc LittleEndian m off b
      = Reverse (VectorLoad_POWER7_off tc m off b)"
    by (simp add: VectorLoadBE_POWER7_off_LittleEndian VectorLoad_POWER7_off_eq Reverse_rev
        length_load16)
  moreover
  have "VectorLoad_POWER7_off tc (VectorStoreBE_POWER7_off tc LittleEndian v m off b) off b
      = Reverse v"
    using assms load16_after_store [OF lrv]
    by (simp add: VectorLoad_POWER7_off_eq VectorStoreBE_POWER7_off_LittleEndian rv)
  moreover
  have "VectorStoreBE_POWER7 tc LittleEndian v m b = VectorStore_POWER7 tc (Reverse v) m b"
    using assms by (simp add: VectorStoreBE_POWER7_LittleEndian VectorStore_POWER7_eq rv)
  ultimately show ?thesis by blast
qed

section \<open>What the baseline store writes\<close>

text \<open>
  The eight lane-partial stores together cover the sixteen bytes at \<open>dest\<close>, each byte
  receives the element of the rotated vector that belongs to its address, and the rotation
  by the \<^verbatim>\<open>vec_lvsr\<close> vector puts byte \<open>j\<close> of the vector at \<open>dest + j\<close>. So the
  baseline \<^verbatim>\<open>VectorStore\<close> leaves the vector at \<open>dest\<close> on a big-endian host and the
  reversed vector on a little-endian host.
\<close>

lemma align_down_shift:
  assumes "sz dvd b"
  shows "align_down sz (b + c) = b + align_down sz c"
proof -
  have "(b + c) mod sz = c mod sz"
    using assms by (simp add: mod_add_left_eq [symmetric] del: mod_add_left_eq)
  moreover have "c mod sz \<le> c" by simp
  ultimately show ?thesis by (simp add: align_down_def)
qed

lemma vec_ste_reaches:
  assumes "sz dvd b" "dest = b + r" "align_down sz (r + off) = A" "A \<le> r + j" "r + j < A + sz"
  shows "align_down sz (dest + off) \<le> dest + j \<and> dest + j < align_down sz (dest + off) + sz"
proof -
  have e: "dest + off = b + (r + off)" using assms(2) by simp
  have "align_down sz (dest + off) = b + A"
    unfolding e using align_down_shift [OF assms(1), of "r + off"] assms(3) by simp
  then show ?thesis using assms(2,4,5) by simp
qed

text \<open>
  Whatever \<open>dest mod 4\<close> is, every address of the sixteen-byte window lies in the lane
  that one of the eight stores writes.
\<close>

lemma store_sequence_hits:
  assumes j: "j < 16"
  shows "(align_down 1 (dest + 0) \<le> dest + j \<and> dest + j < align_down 1 (dest + 0) + 1)
       \<or> (align_down 2 (dest + 1) \<le> dest + j \<and> dest + j < align_down 2 (dest + 1) + 2)
       \<or> (align_down 4 (dest + 3) \<le> dest + j \<and> dest + j < align_down 4 (dest + 3) + 4)
       \<or> (align_down 4 (dest + 4) \<le> dest + j \<and> dest + j < align_down 4 (dest + 4) + 4)
       \<or> (align_down 4 (dest + 8) \<le> dest + j \<and> dest + j < align_down 4 (dest + 8) + 4)
       \<or> (align_down 4 (dest + 12) \<le> dest + j \<and> dest + j < align_down 4 (dest + 12) + 4)
       \<or> (align_down 2 (dest + 14) \<le> dest + j \<and> dest + j < align_down 2 (dest + 14) + 2)
       \<or> (align_down 1 (dest + 15) \<le> dest + j \<and> dest + j < align_down 1 (dest + 15) + 1)"
proof -
  define b where "b = 4 * (dest div 4)"
  define r where "r = dest mod 4"
  have dest: "dest = b + r" by (simp add: b_def r_def)
  have d4: "4 dvd b" and d2: "2 dvd b" and d1: "1 dvd b" by (simp_all add: b_def)
  note h4 = vec_ste_reaches [OF d4 dest] and h2 = vec_ste_reaches [OF d2 dest] and h1 = vec_ste_reaches [OF d1 dest]
  have "r < 4" by (simp add: r_def)
  then consider "r = 0" | "r = 1" | "r = 2" | "r = 3" by linarith
  then show ?thesis
  proof cases
    case 1
    from j consider (p0) "j < 4" | (p1) "4 \<le> j" "j < 8" | (p2) "8 \<le> j" "j < 12" | (p3) "12 \<le> j" by linarith
    then show ?thesis
    proof cases
      case p0
      have "align_down 4 (dest + 3) \<le> dest + j \<and> dest + j < align_down 4 (dest + 3) + 4"
        by (rule h4 [where A = 0]) (use \<open>r = 0\<close> j p0 in \<open>simp_all add: align_down_def\<close>)
      then show ?thesis by blast
    next
      case p1
      have "align_down 4 (dest + 4) \<le> dest + j \<and> dest + j < align_down 4 (dest + 4) + 4"
        by (rule h4 [where A = 4]) (use \<open>r = 0\<close> j p1 in \<open>simp_all add: align_down_def\<close>)
      then show ?thesis by blast
    next
      case p2
      have "align_down 4 (dest + 8) \<le> dest + j \<and> dest + j < align_down 4 (dest + 8) + 4"
        by (rule h4 [where A = 8]) (use \<open>r = 0\<close> j p2 in \<open>simp_all add: align_down_def\<close>)
      then show ?thesis by blast
    next
      case p3
      have "align_down 4 (dest + 12) \<le> dest + j \<and> dest + j < align_down 4 (dest + 12) + 4"
        by (rule h4 [where A = 12]) (use \<open>r = 0\<close> j p3 in \<open>simp_all add: align_down_def\<close>)
      then show ?thesis by blast
    qed
  next
    case 2
    from j consider (p0) "j < 1" | (p1) "1 \<le> j" "j < 3" | (p2) "3 \<le> j" "j < 7" | (p3) "7 \<le> j" "j < 11" | (p4) "11 \<le> j" "j < 15" | (p5) "15 \<le> j" by linarith
    then show ?thesis
    proof cases
      case p0
      have "align_down 1 (dest + 0) \<le> dest + j \<and> dest + j < align_down 1 (dest + 0) + 1"
        by (rule h1 [where A = 1]) (use \<open>r = 1\<close> j p0 in \<open>simp_all add: align_down_def\<close>)
      then show ?thesis by blast
    next
      case p1
      have "align_down 2 (dest + 1) \<le> dest + j \<and> dest + j < align_down 2 (dest + 1) + 2"
        by (rule h2 [where A = 2]) (use \<open>r = 1\<close> j p1 in \<open>simp_all add: align_down_def\<close>)
      then show ?thesis by blast
    next
      case p2
      have "align_down 4 (dest + 3) \<le> dest + j \<and> dest + j < align_down 4 (dest + 3) + 4"
        by (rule h4 [where A = 4]) (use \<open>r = 1\<close> j p2 in \<open>simp_all add: align_down_def\<close>)
      then show ?thesis by blast
    next
      case p3
      have "align_down 4 (dest + 8) \<le> dest + j \<and> dest + j < align_down 4 (dest + 8) + 4"
        by (rule h4 [where A = 8]) (use \<open>r = 1\<close> j p3 in \<open>simp_all add: align_down_def\<close>)
      then show ?thesis by blast
    next
      case p4
      have "align_down 4 (dest + 12) \<le> dest + j \<and> dest + j < align_down 4 (dest + 12) + 4"
        by (rule h4 [where A = 12]) (use \<open>r = 1\<close> j p4 in \<open>simp_all add: align_down_def\<close>)
      then show ?thesis by blast
    next
      case p5
      have "align_down 1 (dest + 15) \<le> dest + j \<and> dest + j < align_down 1 (dest + 15) + 1"
        by (rule h1 [where A = 16]) (use \<open>r = 1\<close> j p5 in \<open>simp_all add: align_down_def\<close>)
      then show ?thesis by blast
    qed
  next
    case 3
    from j consider (p0) "j < 2" | (p1) "2 \<le> j" "j < 6" | (p2) "6 \<le> j" "j < 10" | (p3) "10 \<le> j" "j < 14" | (p4) "14 \<le> j" by linarith
    then show ?thesis
    proof cases
      case p0
      have "align_down 2 (dest + 1) \<le> dest + j \<and> dest + j < align_down 2 (dest + 1) + 2"
        by (rule h2 [where A = 2]) (use \<open>r = 2\<close> j p0 in \<open>simp_all add: align_down_def\<close>)
      then show ?thesis by blast
    next
      case p1
      have "align_down 4 (dest + 3) \<le> dest + j \<and> dest + j < align_down 4 (dest + 3) + 4"
        by (rule h4 [where A = 4]) (use \<open>r = 2\<close> j p1 in \<open>simp_all add: align_down_def\<close>)
      then show ?thesis by blast
    next
      case p2
      have "align_down 4 (dest + 8) \<le> dest + j \<and> dest + j < align_down 4 (dest + 8) + 4"
        by (rule h4 [where A = 8]) (use \<open>r = 2\<close> j p2 in \<open>simp_all add: align_down_def\<close>)
      then show ?thesis by blast
    next
      case p3
      have "align_down 4 (dest + 12) \<le> dest + j \<and> dest + j < align_down 4 (dest + 12) + 4"
        by (rule h4 [where A = 12]) (use \<open>r = 2\<close> j p3 in \<open>simp_all add: align_down_def\<close>)
      then show ?thesis by blast
    next
      case p4
      have "align_down 2 (dest + 14) \<le> dest + j \<and> dest + j < align_down 2 (dest + 14) + 2"
        by (rule h2 [where A = 16]) (use \<open>r = 2\<close> j p4 in \<open>simp_all add: align_down_def\<close>)
      then show ?thesis by blast
    qed
  next
    case 4
    from j consider (p0) "j < 1" | (p1) "1 \<le> j" "j < 5" | (p2) "5 \<le> j" "j < 9" | (p3) "9 \<le> j" "j < 13" | (p4) "13 \<le> j" "j < 15" | (p5) "15 \<le> j" by linarith
    then show ?thesis
    proof cases
      case p0
      have "align_down 1 (dest + 0) \<le> dest + j \<and> dest + j < align_down 1 (dest + 0) + 1"
        by (rule h1 [where A = 3]) (use \<open>r = 3\<close> j p0 in \<open>simp_all add: align_down_def\<close>)
      then show ?thesis by blast
    next
      case p1
      have "align_down 4 (dest + 3) \<le> dest + j \<and> dest + j < align_down 4 (dest + 3) + 4"
        by (rule h4 [where A = 4]) (use \<open>r = 3\<close> j p1 in \<open>simp_all add: align_down_def\<close>)
      then show ?thesis by blast
    next
      case p2
      have "align_down 4 (dest + 8) \<le> dest + j \<and> dest + j < align_down 4 (dest + 8) + 4"
        by (rule h4 [where A = 8]) (use \<open>r = 3\<close> j p2 in \<open>simp_all add: align_down_def\<close>)
      then show ?thesis by blast
    next
      case p3
      have "align_down 4 (dest + 12) \<le> dest + j \<and> dest + j < align_down 4 (dest + 12) + 4"
        by (rule h4 [where A = 12]) (use \<open>r = 3\<close> j p3 in \<open>simp_all add: align_down_def\<close>)
      then show ?thesis by blast
    next
      case p4
      have "align_down 2 (dest + 14) \<le> dest + j \<and> dest + j < align_down 2 (dest + 14) + 2"
        by (rule h2 [where A = 16]) (use \<open>r = 3\<close> j p4 in \<open>simp_all add: align_down_def\<close>)
      then show ?thesis by blast
    next
      case p5
      have "align_down 1 (dest + 15) \<le> dest + j \<and> dest + j < align_down 1 (dest + 15) + 1"
        by (rule h1 [where A = 18]) (use \<open>r = 3\<close> j p5 in \<open>simp_all add: align_down_def\<close>)
      then show ?thesis by blast
    qed
  qed
qed

text \<open>
  A lane-partial store puts at address \<open>x\<close> the element \<open>x mod 16\<close> of its vector, and a
  later store of the same vector leaves such a byte as it is.
\<close>

lemma lane_index:
  fixes EA x sz :: nat
  assumes sz: "sz dvd 16" "0 < sz" and al: "sz dvd EA" and x: "EA \<le> x" "x < EA + sz"
  shows "EA mod 16 + (x - EA) = x mod 16"
proof -
  obtain b where b: "16 = sz * b" using sz(1) by (auto simp: dvd_def)
  have "sz dvd EA mod 16" using al sz(1) by (rule dvd_mod)
  then obtain a where a: "EA mod 16 = sz * a" by (auto simp: dvd_def)
  have "sz * a < sz * b" using a b by (metis mod_less_divisor zero_less_numeral)
  then have "a < b" using sz(2) by simp
  then have "sz * (a + 1) \<le> sz * b" using sz(2) by (simp del: mult_Suc_right)
  then have bound: "EA mod 16 + sz \<le> 16" using a b by (simp add: algebra_simps)
  define d where "d = x - EA"
  have d: "x = EA + d" "d < sz" using x by (simp_all add: d_def)
  have "x mod 16 = (EA mod 16 + d) mod 16" unfolding d(1) by (simp add: mod_add_left_eq)
  also have "\<dots> = EA mod 16 + d" using bound d(2) by simp
  finally show ?thesis by (simp add: d_def)
qed

lemma align_down_dvd: "sz dvd align_down sz a"
  by (simp add: align_down_def)

lemma vec_ste_covered:
  assumes "sz dvd 16" "0 < sz"
    and "align_down sz (dest + off) \<le> x \<and> x < align_down sz (dest + off) + sz"
  shows "vec_ste sz v (int off) dest m x = v ! (x mod 16)"
proof -
  have ea: "effective_address (int off) dest = dest + off"
    by (simp add: effective_address_def)
  have "align_down sz (dest + off) mod 16 + (x - align_down sz (dest + off)) = x mod 16"
    using assms(1,2) align_down_dvd assms(3) [THEN conjunct1] assms(3) [THEN conjunct2]
    by (rule lane_index)
  then show ?thesis using assms(3)
    by (simp add: vec_ste_def Let_def ea store_window_def)
qed

lemma vec_ste_kept:
  assumes "sz dvd 16" "0 < sz" "m x = v ! (x mod 16)"
  shows "vec_ste sz v (int off) dest m x = v ! (x mod 16)"
proof (cases "align_down sz (dest + off) \<le> x \<and> x < align_down sz (dest + off) + sz")
  case True
  with assms(1,2) show ?thesis by (rule vec_ste_covered)
next
  case False
  have ea: "effective_address (int off) dest = dest + off"
    by (simp add: effective_address_def)
  show ?thesis using False assms(3)
    by (auto simp add: vec_ste_def Let_def ea store_window_def)
qed

lemma vec_ste_hit_or_kept:
  assumes "sz dvd 16" "0 < sz"
    and "(align_down sz (dest + off) \<le> x \<and> x < align_down sz (dest + off) + sz)
         \<or> m x = v ! (x mod 16)"
  shows "vec_ste sz v (int off) dest m x = v ! (x mod 16)"
  using assms(3) vec_ste_covered [OF assms(1,2)] vec_ste_kept [OF assms(1,2)] by blast

lemma store_sequence_value:
  assumes "(align_down 1 (dest + 0) \<le> x \<and> x < align_down 1 (dest + 0) + 1)
       \<or> (align_down 2 (dest + 1) \<le> x \<and> x < align_down 2 (dest + 1) + 2)
       \<or> (align_down 4 (dest + 3) \<le> x \<and> x < align_down 4 (dest + 3) + 4)
       \<or> (align_down 4 (dest + 4) \<le> x \<and> x < align_down 4 (dest + 4) + 4)
       \<or> (align_down 4 (dest + 8) \<le> x \<and> x < align_down 4 (dest + 8) + 4)
       \<or> (align_down 4 (dest + 12) \<le> x \<and> x < align_down 4 (dest + 12) + 4)
       \<or> (align_down 2 (dest + 14) \<le> x \<and> x < align_down 2 (dest + 14) + 2)
       \<or> (align_down 1 (dest + 15) \<le> x \<and> x < align_down 1 (dest + 15) + 1)"
  shows "vec_ste 1 v 15 dest (vec_ste 2 v 14 dest (vec_ste 4 v 12 dest (vec_ste 4 v 8 dest
           (vec_ste 4 v 4 dest (vec_ste 4 v 3 dest (vec_ste 2 v 1 dest
             (vec_ste 1 v 0 dest m))))))) x = v ! (x mod 16)"
proof -
  note s1 = vec_ste_hit_or_kept [of 1, simplified]
    and s2 = vec_ste_hit_or_kept [of 2, simplified]
    and s4 = vec_ste_hit_or_kept [of 4, simplified]
  let ?W = "v ! (x mod 16)"
  let ?m1 = "vec_ste 1 v 0 dest m"
  let ?m2 = "vec_ste 2 v 1 dest ?m1"
  let ?m3 = "vec_ste 4 v 3 dest ?m2"
  let ?m4 = "vec_ste 4 v 4 dest ?m3"
  let ?m5 = "vec_ste 4 v 8 dest ?m4"
  let ?m6 = "vec_ste 4 v 12 dest ?m5"
  let ?m7 = "vec_ste 2 v 14 dest ?m6"
  have 1: "(align_down 1 (dest + 0) \<le> x \<and> x < align_down 1 (dest + 0) + 1) \<Longrightarrow> ?m1 x = ?W"
    using s1 [of dest 0 x m v] by simp
  have 2: "(align_down 2 (dest + 1) \<le> x \<and> x < align_down 2 (dest + 1) + 2) \<or> ?m1 x = ?W
           \<Longrightarrow> ?m2 x = ?W"
    using s2 [of dest 1 x ?m1 v] by simp
  have 3: "(align_down 4 (dest + 3) \<le> x \<and> x < align_down 4 (dest + 3) + 4) \<or> ?m2 x = ?W
           \<Longrightarrow> ?m3 x = ?W"
    using s4 [of dest 3 x ?m2 v] by simp
  have 4: "(align_down 4 (dest + 4) \<le> x \<and> x < align_down 4 (dest + 4) + 4) \<or> ?m3 x = ?W
           \<Longrightarrow> ?m4 x = ?W"
    using s4 [of dest 4 x ?m3 v] by simp
  have 5: "(align_down 4 (dest + 8) \<le> x \<and> x < align_down 4 (dest + 8) + 4) \<or> ?m4 x = ?W
           \<Longrightarrow> ?m5 x = ?W"
    using s4 [of dest 8 x ?m4 v] by simp
  have 6: "(align_down 4 (dest + 12) \<le> x \<and> x < align_down 4 (dest + 12) + 4) \<or> ?m5 x = ?W
           \<Longrightarrow> ?m6 x = ?W"
    using s4 [of dest 12 x ?m5 v] by simp
  have 7: "(align_down 2 (dest + 14) \<le> x \<and> x < align_down 2 (dest + 14) + 2) \<or> ?m6 x = ?W
           \<Longrightarrow> ?m7 x = ?W"
    using s2 [of dest 14 x ?m6 v] by simp
  have 8: "(align_down 1 (dest + 15) \<le> x \<and> x < align_down 1 (dest + 15) + 1) \<or> ?m7 x = ?W
           \<Longrightarrow> vec_ste 1 v 15 dest ?m7 x = ?W"
    using s1 [of dest 15 x ?m7 v] by simp
  from assms 1 2 3 4 5 6 7 8 show ?thesis by blast
qed

lemma length_vec_lvsr: "length (vec_lvsr off p) = 16"
  by (simp add: vec_lvsr_def Let_def)

lemma nth_vec_lvsr:
  "i < 16 \<Longrightarrow> vec_lvsr off p ! i = of_nat (16 - effective_address off p mod 16 + i)"
  by (simp add: vec_lvsr_def Let_def)

lemma rotated_lane:
  assumes len: "length t1 = 16" and j: "j < 16"
  shows "vec_perm t1 t1 (vec_lvsr 0 dest) ! ((dest + j) mod 16) = t1 ! j"
proof -
  define sh where "sh = dest mod 16"
  define k where "k = (dest + j) mod 16"
  have sh: "sh < 16" and k: "k < 16" by (simp_all add: sh_def k_def)
  have kk: "k = (sh + j) mod 16" by (simp add: k_def sh_def mod_add_left_eq)
  have idx: "16 - sh + k < 32" using sh k by simp
  have "vec_perm t1 t1 (vec_lvsr 0 dest) ! k = (t1 @ t1) ! (16 - sh + k)"
    using k idx
    by (simp only: nth_vec_perm length_vec_lvsr nth_vec_lvsr effective_address_simps
        unat_byte_and_31 sh_def [symmetric])
  also have "\<dots> = t1 ! j"
  proof (cases "sh + j < 16")
    case True
    then have "k = sh + j" using kk by simp
    then have "16 - sh + k = 16 + j" using sh by simp
    then show ?thesis using len by (simp add: nth_append)
  next
    case False
    then have "k = sh + j - 16" using kk sh j by (simp add: mod_if)
    then have "16 - sh + k = j" using False sh by simp
    then show ?thesis using len j by (simp add: nth_append)
  qed
  finally show ?thesis by (simp add: k_def)
qed

lemma VectorStore_ALTIVEC_stored:
  assumes len: "length data = 16"
  shows "load16 (VectorStore_ALTIVEC e data m dest) dest
       = (case e of BigEndian \<Rightarrow> data | LittleEndian \<Rightarrow> rev data)"
proof -
  define t1 where "t1 = (case e of BigEndian \<Rightarrow> data | LittleEndian \<Rightarrow> rev data)"
  have t1: "(case e of
               LittleEndian \<Rightarrow>
                 (let vmask = [15,14,13,12, 11,10,9,8, 7,6,5,4, 3,2,1,0]
                  in vec_perm data data vmask)
             | BigEndian \<Rightarrow> data) = t1"
    using Reverse_rev [OF len] by (cases e) (simp_all add: t1_def Reverse_def)
  have lt: "length t1 = 16" using len by (cases e) (simp_all add: t1_def)
  have "load16 (VectorStore_ALTIVEC e data m dest) dest = t1"
  proof (cases "IsAlignedOn dest 16")
    case True
    then have "VectorStore_ALTIVEC e data m dest = store_window dest 16 (\<lambda>k. t1 ! k) m"
      unfolding VectorStore_ALTIVEC_def t1
      by (simp add: IsAlignedOn_def vec_st_def effective_address_simps align_down_def)
    then show ?thesis using lt by (simp add: load16_after_store)
  next
    case False
    let ?t2 = "vec_perm t1 t1 (vec_lvsr 0 dest)"
    have st: "VectorStore_ALTIVEC e data m dest =
        vec_ste 1 ?t2 15 dest (vec_ste 2 ?t2 14 dest (vec_ste 4 ?t2 12 dest (vec_ste 4 ?t2 8 dest
           (vec_ste 4 ?t2 4 dest (vec_ste 4 ?t2 3 dest (vec_ste 2 ?t2 1 dest
             (vec_ste 1 ?t2 0 dest m)))))))"
      unfolding VectorStore_ALTIVEC_def t1 using False by (simp add: Let_def)
    show ?thesis
    proof (rule nth_equalityI)
      show "length (load16 (VectorStore_ALTIVEC e data m dest) dest) = length t1"
        using lt by (simp add: length_load16)
    next
      fix j
      assume "j < length (load16 (VectorStore_ALTIVEC e data m dest) dest)"
      then have j: "j < 16" by (simp add: length_load16)
      have "VectorStore_ALTIVEC e data m dest (dest + j) = ?t2 ! ((dest + j) mod 16)"
        unfolding st by (rule store_sequence_value) (rule store_sequence_hits [OF j])
      also have "\<dots> = t1 ! j" using lt j by (rule rotated_lane)
      finally show "load16 (VectorStore_ALTIVEC e data m dest) dest ! j = t1 ! j"
        using j by (simp add: nth_load16)
    qed
  qed
  then show ?thesis by (simp add: t1_def)
qed

lemma VectorStoreBE_ALTIVEC_stored:
  assumes len: "length src = 16"
  shows "load16 (VectorStoreBE_ALTIVEC e src m dest) dest = src"
proof (cases e)
  case BigEndian
  then show ?thesis using VectorStore_ALTIVEC_stored [OF len, of BigEndian m dest]
    by (simp add: VectorStoreBE_ALTIVEC_def)
next
  case LittleEndian
  have r: "vec_perm src src [15,14,13,12, 11,10,9,8, 7,6,5,4, 3,2,1,0] = rev src"
    using Reverse_rev [OF len] by (simp add: Reverse_def)
  have "length (rev src) = 16" using len by simp
  from VectorStore_ALTIVEC_stored [OF this, of LittleEndian m dest] LittleEndian
  show ?thesis by (simp add: VectorStoreBE_ALTIVEC_def r)
qed

section \<open>Claims\<close>

text \<open>
  C6: for every 128-bit vector \<open>v\<close>, seen as sixteen bytes, \<open>Reverse (Reverse v) = v\<close>.
  \<open>Reverse\<close> is the permutation with the mask \<open>{15,14,...,0}\<close>, and byte \<open>i\<close> of the
  result is byte \<open>15 - i\<close> of the source.
\<close>

theorem C6_Reverse_involution:
  assumes "length v = 16"
  shows "Reverse (Reverse v) = v
       \<and> Reverse v = vec_perm v v [15,14,13,12, 11,10,9,8, 7,6,5,4, 3,2,1,0]
       \<and> (\<forall>i<16. Reverse v ! i = v ! (15 - i))"
proof -
  have r: "Reverse v = rev v" using assms by (rule Reverse_rev)
  have "Reverse (Reverse v) = rev (Reverse v)"
    by (rule Reverse_rev) (rule length_Reverse)
  then have "Reverse (Reverse v) = v" by (simp add: r)
  moreover have "Reverse v = vec_perm v v [15,14,13,12, 11,10,9,8, 7,6,5,4, 3,2,1,0]"
    by (simp add: Reverse_def)
  moreover have "\<forall>i<16. Reverse v ! i = v ! (15 - i)"
    using assms by (simp add: r rev_nth)
  ultimately show ?thesis by blast
qed

theorem C6_Reverse_involution_witness:
  "length [1,2,3,4,5,6,7,8,9,10,11,12,13,14,15,16] = 16
   \<and> Reverse (Reverse [1,2,3,4,5,6,7,8,9,10,11,12,13,14,15,16]) = [1,2,3,4,5,6,7,8,9,10,11,12,13,14,15,16]
   \<and> Reverse [1,2,3,4,5,6,7,8,9,10,11,12,13,14,15,16] = vec_perm [1,2,3,4,5,6,7,8,9,10,11,12,13,14,15,16] [1,2,3,4,5,6,7,8,9,10,11,12,13,14,15,16] [15,14,13,12, 11,10,9,8, 7,6,5,4, 3,2,1,0]
   \<and> Reverse [1,2,3,4,5,6,7,8,9,10,11,12,13,14,15,16] ! 0 = [1,2,3,4,5,6,7,8,9,10,11,12,13,14,15,16] ! (15 - 0)"
proof -
  have h: "length [1,2,3,4,5,6,7,8,9,10,11,12,13,14,15,16] = 16" by simp
  have "(0::nat) < 16" by simp
  with C6_Reverse_involution [OF h] h show ?thesis by blast
qed

text \<open>
  C10: for every shift count \<open>C\<close> and all vectors \<open>a\<close> and \<open>b\<close>, the two-vector
  \<^verbatim>\<open>VectorShiftRight<C>(a, b)\<close> is the same value as the two-vector
  \<^verbatim>\<open>VectorShiftLeft<C>(a, b)\<close>: on a big-endian host both are \<^verbatim>\<open>vec_sld(a, b, C&0xf)\<close>, on
  a little-endian host both are \<^verbatim>\<open>vec_sld(b, a, (16-C)&0xf)\<close>.
\<close>

theorem C10_shift_right2_is_shift_left2:
  "VectorShiftRight2 e C a b = VectorShiftLeft2 e C a b
   \<and> VectorShiftLeft2 BigEndian C a b = vec_sld BigEndian a b (unat (C AND 0xf))
   \<and> VectorShiftRight2 BigEndian C a b = vec_sld BigEndian a b (unat (C AND 0xf))
   \<and> VectorShiftLeft2 LittleEndian C a b = vec_sld LittleEndian b a (unat ((16 - C) AND 0xf))
   \<and> VectorShiftRight2 LittleEndian C a b = vec_sld LittleEndian b a (unat ((16 - C) AND 0xf))"
  by (simp add: VectorShiftRight2_def VectorShiftLeft2_def)

text \<open>
  C3: the two-vector \<^verbatim>\<open>VectorShiftLeft<C>(a, b)\<close> is claimed to give the same result on
  a big-endian and on a little-endian host for every \<open>C\<close> from 0 to 15. At \<open>C = 0\<close> the
  little-endian branch computes \<open>(16-0)&0xf = 0\<close> and calls \<^verbatim>\<open>vec_sld(b, a, 0)\<close>, which is
  \<open>b\<close>, while the big-endian branch gives \<open>a\<close>. (For \<open>C\<close> from 1 to 15 the two hosts
  agree: \<open>VectorShiftLeft2_window\<close>.)
\<close>

theorem C3_shift_left2_count_0:
  "VectorShiftLeft2 BigEndian 0 [1,2,3,4,5,6,7,8,9,10,11,12,13,14,15,16] [17,18,19,20,21,22,23,24,25,26,27,28,29,30,31,32] = [1,2,3,4,5,6,7,8,9,10,11,12,13,14,15,16]
   \<and> VectorShiftLeft2 LittleEndian 0 [1,2,3,4,5,6,7,8,9,10,11,12,13,14,15,16] [17,18,19,20,21,22,23,24,25,26,27,28,29,30,31,32] = [17,18,19,20,21,22,23,24,25,26,27,28,29,30,31,32]"
  by (simp add: VectorShiftLeft2_def vec_sld_count_0)

text \<open>
  C4: the one-vector shifts at count 0 are claimed to be the identity on both hosts. On a
  little-endian host \<^verbatim>\<open>VectorShiftLeft<0>(v)\<close> and \<^verbatim>\<open>VectorShiftRight<0>(v)\<close> call
  \<^verbatim>\<open>vec_sld(zero, v, 0)\<close> and return the zero vector.
\<close>

theorem C4_shift_count_0:
  "VectorShiftLeft BigEndian 0 [1,2,3,4,5,6,7,8,9,10,11,12,13,14,15,16] = [1,2,3,4,5,6,7,8,9,10,11,12,13,14,15,16]
   \<and> VectorShiftRight BigEndian 0 [1,2,3,4,5,6,7,8,9,10,11,12,13,14,15,16] = [1,2,3,4,5,6,7,8,9,10,11,12,13,14,15,16]
   \<and> VectorShiftLeft LittleEndian 0 [1,2,3,4,5,6,7,8,9,10,11,12,13,14,15,16] = [0,0,0,0,0,0,0,0,0,0,0,0,0,0,0,0]
   \<and> VectorShiftRight LittleEndian 0 [1,2,3,4,5,6,7,8,9,10,11,12,13,14,15,16] = [0,0,0,0,0,0,0,0,0,0,0,0,0,0,0,0]"
  by (simp add: VectorShiftLeft_def VectorShiftRight_def VectorXor_def vec_xor_def vec_sld_count_0)

text \<open>
  C5: a two-vector \<^verbatim>\<open>VectorShiftLeft<C>\<close> followed by \<^verbatim>\<open>VectorShiftRight<C>\<close> of the
  shifted result, recombined with the bytes the first shift dropped, is claimed to give the
  vector back. At \<open>C = 3\<close> the shifted vector is \<open>s = {4,...,16,0,0,0}\<close> and the dropped
  bytes are kept in \<open>r = {0,...,0,1,2,3}\<close>. The code's \<^verbatim>\<open>VectorShiftRight<3>\<close> shifts left
  again and gives the vector back in neither argument order, on either host; the shift the
  header documents does.
\<close>

theorem C5_shift_round_trip_count_3:
  "VectorShiftLeft2 BigEndian 3 [1,2,3,4,5,6,7,8,9,10,11,12,13,14,15,16] [0,0,0,0,0,0,0,0,0,0,0,0,0,0,0,0] = [4,5,6,7,8,9,10,11,12,13,14,15,16,0,0,0]
   \<and> VectorShiftLeft2 BigEndian 3 [0,0,0,0,0,0,0,0,0,0,0,0,0,0,0,0] [1,2,3,4,5,6,7,8,9,10,11,12,13,14,15,16] = [0,0,0,0,0,0,0,0,0,0,0,0,0,1,2,3]
   \<and> VectorShiftRight2 BigEndian 3 [4,5,6,7,8,9,10,11,12,13,14,15,16,0,0,0] [0,0,0,0,0,0,0,0,0,0,0,0,0,1,2,3] = [7,8,9,10,11,12,13,14,15,16,0,0,0,0,0,0]
   \<and> VectorShiftRight2 BigEndian 3 [0,0,0,0,0,0,0,0,0,0,0,0,0,1,2,3] [4,5,6,7,8,9,10,11,12,13,14,15,16,0,0,0] = [0,0,0,0,0,0,0,0,0,0,1,2,3,4,5,6]
   \<and> VectorShiftRight2_documented BigEndian 3 [4,5,6,7,8,9,10,11,12,13,14,15,16,0,0,0] [0,0,0,0,0,0,0,0,0,0,0,0,0,1,2,3] = [1,2,3,4,5,6,7,8,9,10,11,12,13,14,15,16]
   \<and> VectorShiftLeft2 LittleEndian 3 [1,2,3,4,5,6,7,8,9,10,11,12,13,14,15,16] [0,0,0,0,0,0,0,0,0,0,0,0,0,0,0,0] = [4,5,6,7,8,9,10,11,12,13,14,15,16,0,0,0]
   \<and> VectorShiftLeft2 LittleEndian 3 [0,0,0,0,0,0,0,0,0,0,0,0,0,0,0,0] [1,2,3,4,5,6,7,8,9,10,11,12,13,14,15,16] = [0,0,0,0,0,0,0,0,0,0,0,0,0,1,2,3]
   \<and> VectorShiftRight2 LittleEndian 3 [4,5,6,7,8,9,10,11,12,13,14,15,16,0,0,0] [0,0,0,0,0,0,0,0,0,0,0,0,0,1,2,3] = [7,8,9,10,11,12,13,14,15,16,0,0,0,0,0,0]
   \<and> VectorShiftRight2 LittleEndian 3 [0,0,0,0,0,0,0,0,0,0,0,0,0,1,2,3] [4,5,6,7,8,9,10,11,12,13,14,15,16,0,0,0] = [0,0,0,0,0,0,0,0,0,0,1,2,3,4,5,6]
   \<and> VectorShiftRight2_documented LittleEndian 3 [4,5,6,7,8,9,10,11,12,13,14,15,16,0,0,0] [0,0,0,0,0,0,0,0,0,0,0,0,0,1,2,3] = [1,2,3,4,5,6,7,8,9,10,11,12,13,14,15,16]"
  by (simp add: VectorShiftLeft2_def VectorShiftRight2_def VectorShiftRight2_documented_def
      vec_sld_def vsldoi_def to_register_def from_register_def)

text \<open>
  C9: compiled with neither the XL C/C++ nor the GCC built-ins, each of
  \<^verbatim>\<open>VectorEncrypt\<close>, \<^verbatim>\<open>VectorEncryptLast\<close>, \<^verbatim>\<open>VectorDecrypt\<close>, \<^verbatim>\<open>VectorDecryptLast\<close>,
  \<^verbatim>\<open>VectorSHA256\<close> and \<^verbatim>\<open>VectorSHA512\<close> reaches \<^verbatim>\<open>CRYPTOPP_ASSERT(0)\<close> on every
  input and ends there without a value; under either supported compiler the call returns
  the built-in's value and the assertion is not reached.
\<close>

theorem C9_crypto_assertion:
  "VectorEncrypt OtherCompiler x1 g1 state key = Inl AssertionFailed
   \<and> VectorEncryptLast OtherCompiler x2 g2 state key = Inl AssertionFailed
   \<and> VectorDecrypt OtherCompiler x3 g3 state key = Inl AssertionFailed
   \<and> VectorDecryptLast OtherCompiler x4 g4 state key = Inl AssertionFailed
   \<and> VectorSHA256 OtherCompiler x5 g5 func subfunc vec = Inl AssertionFailed
   \<and> VectorSHA512 OtherCompiler x6 g6 func subfunc vec = Inl AssertionFailed
   \<and> VectorEncrypt XLC x1 g1 state key = Inr (x1 state key)
   \<and> VectorEncrypt GCC x1 g1 state key = Inr (g1 state key)
   \<and> VectorEncryptLast XLC x2 g2 state key = Inr (x2 state key)
   \<and> VectorEncryptLast GCC x2 g2 state key = Inr (g2 state key)
   \<and> VectorDecrypt XLC x3 g3 state key = Inr (x3 state key)
   \<and> VectorDecrypt GCC x3 g3 state key = Inr (g3 state key)
   \<and> VectorDecryptLast XLC x4 g4 state key = Inr (x4 state key)
   \<and> VectorDecryptLast GCC x4 g4 state key = Inr (g4 state key)
   \<and> VectorSHA256 XLC x5 g5 func subfunc vec = Inr (x5 vec func subfunc)
   \<and> VectorSHA256 GCC x5 g5 func subfunc vec = Inr (g5 vec func subfunc)
   \<and> VectorSHA512 XLC x6 g6 func subfunc vec = Inr (x6 vec func subfunc)
   \<and> VectorSHA512 GCC x6 g6 func subfunc vec = Inr (g6 vec func subfunc)"
  by (simp add: VectorEncrypt_def VectorEncryptLast_def VectorDecrypt_def VectorDecryptLast_def
      VectorSHA256_def VectorSHA512_def CRYPTOPP_ASSERT_def)

text \<open>
  C8: for every vector and every destination address, aligned or not, the baseline
  \<^verbatim>\<open>VectorStore\<close> changes no byte outside the sixteen bytes \<open>dest, ..., dest + 15\<close>:
  the aligned \<^verbatim>\<open>vec_st\<close> and each of the eight \<^verbatim>\<open>vec_ste\<close> stores of the unaligned path
  write inside that window.
\<close>

theorem C8_baseline_store_frame:
  assumes "x < dest \<or> dest + 16 \<le> x"
  shows "VectorStore_ALTIVEC e data m dest x = m x"
proof (cases "IsAlignedOn dest 16")
  case True
  then show ?thesis using assms
    by (simp add: VectorStore_ALTIVEC_def IsAlignedOn_def vec_st_outside)
next
  case False
  have s: "\<And>sz off v m. 0 < sz \<Longrightarrow> sz \<le> off + 1 \<Longrightarrow> off + sz \<le> 16
             \<Longrightarrow> vec_ste sz v (int off) dest m x = m x"
    using assms by (rule vec_ste_outside [rotated 3])
  show ?thesis
    using False s [of 1 0] s [of 2 1] s [of 4 3] s [of 4 4] s [of 4 8] s [of 4 12] s [of 2 14]
      s [of 1 15]
    by (simp add: VectorStore_ALTIVEC_def Let_def)
qed

theorem C8_baseline_store_frame_witness:
  "VectorStore_ALTIVEC BigEndian [1,2,3,4,5,6,7,8,9,10,11,12,13,14,15,16] (\<lambda>_. 0xAA) 17 16 = 0xAA
   \<and> VectorStore_ALTIVEC LittleEndian [1,2,3,4,5,6,7,8,9,10,11,12,13,14,15,16] (\<lambda>_. 0xAA) 17 33 = 0xAA"
proof -
  have below: "(16::nat) < 17 \<or> 17 + 16 \<le> (16::nat)" by simp
  have above: "(33::nat) < 17 \<or> 17 + 16 \<le> (33::nat)" by simp
  from C8_baseline_store_frame [OF below, of BigEndian "[1,2,3,4,5,6,7,8,9,10,11,12,13,14,15,16]" "\<lambda>_. 0xAA"]
    C8_baseline_store_frame [OF above, of LittleEndian "[1,2,3,4,5,6,7,8,9,10,11,12,13,14,15,16]" "\<lambda>_. 0xAA"]
  show ?thesis by (rule conjI)
qed

text \<open>
  C7: under the baseline tier \<^verbatim>\<open>VectorLoad\<close> is claimed to return, for an unaligned
  source, the permute of the low aligned load, the high aligned load at offset 15 and the
  \<^verbatim>\<open>vec_lvsl\<close> vector, and the direct aligned read for an aligned source. The body
  computes exactly that value in \<^verbatim>\<open>data\<close> (and it is the sixteen bytes at \<^verbatim>\<open>src\<close>), but
  it has no \<^verbatim>\<open>return\<close> statement: the call ends without a value.
\<close>

theorem C7_baseline_load_returns_nothing:
  "VectorLoad_ALTIVEC m src = Inl NoReturnValue
   \<and> VectorLoad_ALTIVEC_data m src =
       (if IsAlignedOn src 16 then vec_ld m 0 src
        else vec_perm (vec_ld m 0 src) (vec_ld m 15 src) (vec_lvsl 0 src))
   \<and> VectorLoad_ALTIVEC_data m src = load16 m src"
proof -
  have "VectorLoad_ALTIVEC m src = Inl NoReturnValue"
    by (simp add: VectorLoad_ALTIVEC_def)
  moreover have "VectorLoad_ALTIVEC_data m src =
       (if IsAlignedOn src 16 then vec_ld m 0 src
        else vec_perm (vec_ld m 0 src) (vec_ld m 15 src) (vec_lvsl 0 src))"
    by (simp add: VectorLoad_ALTIVEC_data_def)
  moreover have "VectorLoad_ALTIVEC_data m src = load16 m src"
    by (rule VectorLoad_ALTIVEC_data_eq)
  ultimately show ?thesis by blast
qed

text \<open>
  C1: a \<^verbatim>\<open>VectorStore\<close> followed by a \<^verbatim>\<open>VectorLoad\<close> of the same buffer is claimed to
  give the vector back on the POWER7 and on the baseline implementations, on both hosts.
  With POWER7 it does (\<open>POWER7_store_load_round_trip\<close>). On the baseline the load ends
  without a value, at an unaligned address (19) as at an aligned one (16); and on a
  little-endian host the baseline store has put the bytes in reverse order
  (\<open>VectorStore_ALTIVEC_stored\<close>), so that even the value left in \<^verbatim>\<open>data\<close> is the
  reversed vector.
\<close>

theorem C1_baseline_store_then_load:
  "VectorLoad_ALTIVEC (VectorStore_ALTIVEC BigEndian [1,2,3,4,5,6,7,8,9,10,11,12,13,14,15,16] (\<lambda>_. 0) 19) 19 = Inl NoReturnValue
   \<and> VectorLoad_ALTIVEC (VectorStore_ALTIVEC LittleEndian [1,2,3,4,5,6,7,8,9,10,11,12,13,14,15,16] (\<lambda>_. 0) 16) 16 = Inl NoReturnValue
   \<and> VectorLoad_ALTIVEC_data (VectorStore_ALTIVEC BigEndian [1,2,3,4,5,6,7,8,9,10,11,12,13,14,15,16] (\<lambda>_. 0) 19) 19 = [1,2,3,4,5,6,7,8,9,10,11,12,13,14,15,16]
   \<and> VectorLoad_ALTIVEC_data (VectorStore_ALTIVEC LittleEndian [1,2,3,4,5,6,7,8,9,10,11,12,13,14,15,16] (\<lambda>_. 0) 19) 19 = [16,15,14,13,12,11,10,9,8,7,6,5,4,3,2,1]
   \<and> VectorLoad_POWER7 GCC (VectorStore_POWER7 GCC [1,2,3,4,5,6,7,8,9,10,11,12,13,14,15,16] (\<lambda>_. 0) 19) 19 = [1,2,3,4,5,6,7,8,9,10,11,12,13,14,15,16]"
proof -
  have "VectorLoad_ALTIVEC (VectorStore_ALTIVEC BigEndian [1,2,3,4,5,6,7,8,9,10,11,12,13,14,15,16] (\<lambda>_. 0) 19) 19 = Inl NoReturnValue"
    by (simp add: VectorLoad_ALTIVEC_def)
  moreover
  have "VectorLoad_ALTIVEC (VectorStore_ALTIVEC LittleEndian [1,2,3,4,5,6,7,8,9,10,11,12,13,14,15,16] (\<lambda>_. 0) 16) 16 = Inl NoReturnValue"
    by (simp add: VectorLoad_ALTIVEC_def)
  moreover
  have "VectorLoad_ALTIVEC_data (VectorStore_ALTIVEC BigEndian [1,2,3,4,5,6,7,8,9,10,11,12,13,14,15,16] (\<lambda>_. 0) 19) 19 = [1,2,3,4,5,6,7,8,9,10,11,12,13,14,15,16]"
    by code_simp
  moreover
  have "VectorLoad_ALTIVEC_data (VectorStore_ALTIVEC LittleEndian [1,2,3,4,5,6,7,8,9,10,11,12,13,14,15,16] (\<lambda>_. 0) 19) 19 = [16,15,14,13,12,11,10,9,8,7,6,5,4,3,2,1]"
    by code_simp
  moreover
  have "VectorLoad_POWER7 GCC (VectorStore_POWER7 GCC [1,2,3,4,5,6,7,8,9,10,11,12,13,14,15,16] (\<lambda>_. 0) 19) 19 = [1,2,3,4,5,6,7,8,9,10,11,12,13,14,15,16]"
    by (simp add: POWER7_store_load_round_trip)
  ultimately show ?thesis by blast
qed

text \<open>
  C2: on a little-endian host \<^verbatim>\<open>VectorLoadBE(b)\<close> is claimed to be \<open>Reverse\<close> of
  \<^verbatim>\<open>VectorLoad(b)\<close>, and \<^verbatim>\<open>VectorStoreBE(v, b)\<close> followed by \<^verbatim>\<open>VectorLoad(b)\<close> to give
  \<open>Reverse v\<close>. The POWER7 functions do this (\<open>POWER7_big_endian_paths\<close>). The baseline
  functions do not: the baseline \<^verbatim>\<open>VectorLoad\<close>, and with it \<^verbatim>\<open>VectorLoadBE\<close>, ends
  without a value; and the baseline \<^verbatim>\<open>VectorStoreBE\<close> reverses the vector and hands it to
  the baseline \<^verbatim>\<open>VectorStore\<close>, which reverses it again, so that the buffer, and the
  value a following load leaves in \<^verbatim>\<open>data\<close>, is \<open>v\<close> and not \<open>Reverse v\<close>.
\<close>

theorem C2_baseline_big_endian_paths:
  "VectorLoad_ALTIVEC (VectorStoreBE_ALTIVEC LittleEndian [1,2,3,4,5,6,7,8,9,10,11,12,13,14,15,16] (\<lambda>_. 0) 19) 19 = Inl NoReturnValue
   \<and> VectorLoadBE_ALTIVEC LittleEndian (VectorStoreBE_ALTIVEC LittleEndian [1,2,3,4,5,6,7,8,9,10,11,12,13,14,15,16] (\<lambda>_. 0) 19) 19
       = Inl NoReturnValue
   \<and> load16 (VectorStoreBE_ALTIVEC LittleEndian [1,2,3,4,5,6,7,8,9,10,11,12,13,14,15,16] (\<lambda>_. 0) 19) 19 = [1,2,3,4,5,6,7,8,9,10,11,12,13,14,15,16]
   \<and> VectorLoad_ALTIVEC_data (VectorStoreBE_ALTIVEC LittleEndian [1,2,3,4,5,6,7,8,9,10,11,12,13,14,15,16] (\<lambda>_. 0) 19) 19 = [1,2,3,4,5,6,7,8,9,10,11,12,13,14,15,16]
   \<and> Reverse [1,2,3,4,5,6,7,8,9,10,11,12,13,14,15,16] = [16,15,14,13,12,11,10,9,8,7,6,5,4,3,2,1]
   \<and> VectorLoad_POWER7 XLC (VectorStoreBE_POWER7 XLC LittleEndian [1,2,3,4,5,6,7,8,9,10,11,12,13,14,15,16] (\<lambda>_. 0) 19) 19 = [16,15,14,13,12,11,10,9,8,7,6,5,4,3,2,1]
   \<and> VectorLoad_POWER7 GCC (VectorStoreBE_POWER7 GCC LittleEndian [1,2,3,4,5,6,7,8,9,10,11,12,13,14,15,16] (\<lambda>_. 0) 19) 19 = [16,15,14,13,12,11,10,9,8,7,6,5,4,3,2,1]"
proof -
  have len: "length [1,2,3,4,5,6,7,8,9,10,11,12,13,14,15,16] = 16" by simp
  have rev: "Reverse [1,2,3,4,5,6,7,8,9,10,11,12,13,14,15,16] = [16,15,14,13,12,11,10,9,8,7,6,5,4,3,2,1]"
    by (simp add: Reverse_def vec_perm_def)
  have "VectorLoad_ALTIVEC (VectorStoreBE_ALTIVEC LittleEndian [1,2,3,4,5,6,7,8,9,10,11,12,13,14,15,16] (\<lambda>_. 0) 19) 19
      = Inl NoReturnValue"
    by (simp add: VectorLoad_ALTIVEC_def)
  moreover
  have "VectorLoadBE_ALTIVEC LittleEndian (VectorStoreBE_ALTIVEC LittleEndian [1,2,3,4,5,6,7,8,9,10,11,12,13,14,15,16] (\<lambda>_. 0) 19) 19
      = Inl NoReturnValue"
    by (simp add: VectorLoadBE_ALTIVEC_def VectorLoad_ALTIVEC_def)
  moreover
  have st: "load16 (VectorStoreBE_ALTIVEC LittleEndian [1,2,3,4,5,6,7,8,9,10,11,12,13,14,15,16] (\<lambda>_. 0) 19) 19 = [1,2,3,4,5,6,7,8,9,10,11,12,13,14,15,16]"
    using len by (rule VectorStoreBE_ALTIVEC_stored)
  moreover
  have "VectorLoad_ALTIVEC_data (VectorStoreBE_ALTIVEC LittleEndian [1,2,3,4,5,6,7,8,9,10,11,12,13,14,15,16] (\<lambda>_. 0) 19) 19 = [1,2,3,4,5,6,7,8,9,10,11,12,13,14,15,16]"
    using st by (simp only: VectorLoad_ALTIVEC_data_eq)
  moreover note rev
  moreover
  have "VectorLoad_POWER7 XLC (VectorStoreBE_POWER7 XLC LittleEndian [1,2,3,4,5,6,7,8,9,10,11,12,13,14,15,16] (\<lambda>_. 0) 19) 19 = [16,15,14,13,12,11,10,9,8,7,6,5,4,3,2,1]"
    using POWER7_big_endian_paths [OF len, of XLC "\<lambda>_. 0" 19 0, THEN conjunct2, THEN conjunct1]
    unfolding rev .
  moreover
  have "VectorLoad_POWER7 GCC (VectorStoreBE_POWER7 GCC LittleEndian [1,2,3,4,5,6,7,8,9,10,11,12,13,14,15,16] (\<lambda>_. 0) 19) 19 = [16,15,14,13,12,11,10,9,8,7,6,5,4,3,2,1]"
    using POWER7_big_endian_paths [OF len, of GCC "\<lambda>_. 0" 19 0, THEN conjunct2, THEN conjunct1]
    unfolding rev .
  ultimately show ?thesis by blast
qed

end
